theory Spec2Isabelle
  imports Main "HOL-Library.Word"
begin

section \<open>Library functions the handlers call\<close>

subsection \<open>Pointers to scalars (the SDK's \<open>aws.String\<close>, \<open>aws.Int64\<close>, \<open>aws.StringValue\<close>)\<close>

text \<open>
  The SDK's request and response structures hold pointers to scalars; a nil pointer is
  \<open>None\<close>. \<open>aws.String\<close> and \<open>aws.Int64\<close> take the address of a copy of their
  argument, \<open>aws.StringValue\<close> reads a pointer and gives the empty string for nil.
\<close>

type_synonym int64 = "64 word"

definition aws_String :: "string \<Rightarrow> string option" where
  "aws_String s = Some s"

definition aws_Int64 :: "int64 \<Rightarrow> int64 option" where
  "aws_Int64 n = Some n"

fun aws_StringValue :: "string option \<Rightarrow> string" where
  "aws_StringValue None = []"
| "aws_StringValue (Some s) = s"

subsection \<open>The regular expression \<open>/role/([\w+=,.@-]+)\<close>\<close>

text \<open>
  Go strings are byte sequences and \<open>\w\<close> is the ASCII class \<open>[0-9A-Za-z_]\<close>, so a
  byte of a multi-byte character never belongs to the class.
\<close>

definition wordChar :: "char \<Rightarrow> bool" where
  "wordChar c = (let n = (of_char c :: nat) in
     (48 \<le> n \<and> n \<le> 57) \<or> (65 \<le> n \<and> n \<le> 90) \<or> n = 95 \<or> (97 \<le> n \<and> n \<le> 122))"

definition roleChar :: "char \<Rightarrow> bool" where
  "roleChar c = (wordChar c \<or> c = CHR ''+'' \<or> c = CHR ''='' \<or> c = CHR '','' \<or>
     c = CHR ''.'' \<or> c = CHR ''@'' \<or> c = CHR ''-'')"

text \<open>A literal of the pattern, matched at the start of the text: the rest of the text.\<close>

fun matchLiteral :: "string \<Rightarrow> string \<Rightarrow> string option" where
  "matchLiteral [] s = Some s"
| "matchLiteral (c # cs) [] = None"
| "matchLiteral (c # cs) (d # ds) = (if c = d then matchLiteral cs ds else None)"

text \<open>
  The whole pattern matched at the start of the text. The repetition \<open>+\<close> is greedy and
  nothing follows it, so the group is the longest run of class characters, which must not
  be empty. The result is the matched text followed by the text of the group.
\<close>

definition matchHere :: "string \<Rightarrow> string list option" where
  "matchHere s =
     (case matchLiteral ''/role/'' s of
        None \<Rightarrow> None
      | Some rest \<Rightarrow>
          (let name = takeWhile roleChar rest in
           if name = [] then None else Some [''/role/'' @ name, name]))"

text \<open>
  \<open>FindStringSubmatch\<close> of the compiled pattern: the leftmost match in the text, which
  need not start at its beginning nor reach its end; nil (the empty list) without a match.
\<close>

fun regExpr_FindStringSubmatch :: "string \<Rightarrow> string list" where
  "regExpr_FindStringSubmatch s =
     (case matchHere s of
        Some m \<Rightarrow> m
      | None \<Rightarrow> (case s of [] \<Rightarrow> [] | _ # t \<Rightarrow> regExpr_FindStringSubmatch t))"

declare regExpr_FindStringSubmatch.simps [simp del]

text \<open>
  The text holds, somewhere, the literal \<open>/role/\<close> followed at once by a character of
  the class.
\<close>

definition hasRoleName :: "string \<Rightarrow> bool" where
  "hasRoleName p \<longleftrightarrow> (\<exists>pre c rest. p = pre @ ''/role/'' @ c # rest \<and> roleChar c)"

subsection \<open>Instants and \<open>Format(time.RFC3339)\<close>\<close>

text \<open>
  Of a \<open>time.Time\<close> the layout \<open>2006-01-02T15:04:05Z07:00\<close> reads the seconds since the
  Unix epoch and the offset of the location east of UTC, in seconds; the nanoseconds are
  not printed. The seconds are an unbounded integer here; Go computes on 64 bits and
  wraps for instants more than about 9.22e18 seconds before the epoch, where the two
  differ.
\<close>

record Time =
  unixSec :: int
  zoneOffset :: int

fun decimal :: "nat \<Rightarrow> string" where
  "decimal n = (if n < 10 then [char_of (48 + n)]
                else decimal (n div 10) @ [char_of (48 + n mod 10)])"

declare decimal.simps [simp del]

text \<open>\<open>appendInt\<close>: a sign for a negative number, then the digits padded with zeros.\<close>

definition appendInt :: "int \<Rightarrow> nat \<Rightarrow> string" where
  "appendInt x width =
     (let ds = decimal (nat \<bar>x\<bar>) in
      (if x < 0 then ''-'' else '''') @ replicate (width - length ds) CHR ''0'' @ ds)"

text \<open>The date of the proleptic Gregorian calendar, from the days since 1970-01-01.\<close>

definition civilDate :: "int \<Rightarrow> int \<times> int \<times> int" where
  "civilDate days =
     (let z = days + 719468;
          era = z div 146097;
          doe = z mod 146097;
          yoe = (doe - doe div 1460 + doe div 36524 - doe div 146096) div 365;
          doy = doe - (365 * yoe + yoe div 4 - yoe div 100);
          mp = (5 * doy + 2) div 153;
          d = doy - (153 * mp + 2) div 5 + 1;
          m = (if mp < 10 then mp + 3 else mp - 9);
          y = yoe + era * 400 + (if m \<le> 2 then 1 else 0)
      in (y, m, d))"

text \<open>
  The zone: \<open>Z\<close> for the offset 0, otherwise sign, hours and minutes, the offset in
  minutes being the quotient truncated towards zero.
\<close>

definition formatZone :: "int \<Rightarrow> string" where
  "formatZone offset =
     (if offset = 0 then ''Z''
      else (let zone = sgn offset * (\<bar>offset\<bar> div 60);
                az = \<bar>zone\<bar>
            in (if zone < 0 then ''-'' else ''+'') @
               appendInt (az div 60) 2 @ '':'' @ appendInt (az mod 60) 2))"

definition Format_RFC3339 :: "Time \<Rightarrow> string" where
  "Format_RFC3339 t =
     (let local = unixSec t + zoneOffset t;
          sod = local mod 86400
      in case civilDate (local div 86400) of
           (y, m, d) \<Rightarrow>
             appendInt y 4 @ ''-'' @ appendInt m 2 @ ''-'' @ appendInt d 2 @ ''T'' @
             appendInt (sod div 3600) 2 @ '':'' @ appendInt (sod mod 3600 div 60) 2 @ '':'' @
             appendInt (sod mod 60) 2 @ formatZone (zoneOffset t))"

section \<open>Errors and results\<close>

text \<open>
  A Go \<open>error\<close> is one of: an error made by \<open>fmt.Errorf\<close>, carrying its message; an
  \<open>HttpError\<close>, carrying a status code and the error it wraps; an error of the identity
  provider, opaque to the handlers.
\<close>

datatype error =
    Errorf string
  | HttpError (Code: int) (Err: error)
  | ProviderError string

definition StatusBadRequest :: int where
  "StatusBadRequest = 400"

text \<open>A call either returns or panics (a nil pointer is dereferenced).\<close>

datatype 'a outcome = Return 'a | Panic

section \<open>The identity provider\<close>

record GetRoleInput =
  RoleName :: "string option"

record iam_Role =
  Arn :: "string option"

record GetRoleOutput =
  Role :: "iam_Role option"

record AssumeRoleInput =
  RoleArn :: "string option"
  DurationSeconds :: "int64 option"
  RoleSessionName :: "string option"

record GetSessionTokenInput =
  DurationSeconds :: "int64 option"

record sts_Credentials =
  AccessKeyId :: "string option"
  SecretAccessKey :: "string option"
  SessionToken :: "string option"
  Expiration :: "Time option"

text \<open>\<open>AssumeRoleOutput\<close> and \<open>GetSessionTokenOutput\<close>, read only for their credentials.\<close>

record sts_Output =
  Credentials :: "sts_Credentials option"

text \<open>
  The two clients are interfaces. An operation takes its request and the state of the
  world \<open>'w\<close> (the provider, a test double) and gives the pair Go returns, a pointer to
  the output and an error, either of which may be nil, with the state after the call.
\<close>

record 'w IAMAPI =
  GetRole :: "GetRoleInput \<Rightarrow> 'w \<Rightarrow> (GetRoleOutput option \<times> error option) \<times> 'w"

record 'w STSAPI =
  AssumeRole :: "AssumeRoleInput \<Rightarrow> 'w \<Rightarrow> (sts_Output option \<times> error option) \<times> 'w"
  GetSessionToken :: "GetSessionTokenInput \<Rightarrow> 'w \<Rightarrow> (sts_Output option \<times> error option) \<times> 'w"

section \<open>The credential service\<close>

definition temporaryCredentialsDuration :: int64 where
  "temporaryCredentialsDuration = 3600"

record 'w CredentialService =
  iamClient :: "'w IAMAPI"
  stsClient :: "'w STSAPI"

record credentialResponse =
  AccessKeyId :: string
  SecretAccessKey :: string
  RoleArn :: string
  Token :: string
  Expiration :: string

text \<open>The response built from issued credentials; a nil expiry is dereferenced.\<close>

definition buildResponse :: "sts_Output option \<Rightarrow> string \<Rightarrow> credentialResponse outcome" where
  "buildResponse creds roleArn =
     (case creds of
        None \<Rightarrow> Panic
      | Some out \<Rightarrow>
          (case Credentials out of
             None \<Rightarrow> Panic
           | Some c \<Rightarrow>
               (case sts_Credentials.Expiration c of
                  None \<Rightarrow> Panic
                | Some t \<Rightarrow>
                    Return \<lparr>AccessKeyId = aws_StringValue (sts_Credentials.AccessKeyId c),
                            SecretAccessKey = aws_StringValue (sts_Credentials.SecretAccessKey c),
                            RoleArn = roleArn,
                            Token = aws_StringValue (SessionToken c),
                            Expiration = Format_RFC3339 t\<rparr>)))"

definition getRoleCredentials ::
  "'w CredentialService \<Rightarrow> string \<Rightarrow> 'w \<Rightarrow>
     (credentialResponse option \<times> error option) outcome \<times> 'w" where
  "getRoleCredentials service urlPath w =
     (let urlParts = regExpr_FindStringSubmatch urlPath in
      if length urlParts < 2 then
        (Return (None, Some (HttpError StatusBadRequest
           (Errorf (''Invalid URL path '' @ urlPath @ ''; expected '' @ [CHR 0x27] @
                    ''/role/<IAM Role Name>'' @ [CHR 0x27])))), w)
      else
        (let roleName = urlParts ! 1 in
         case GetRole (iamClient service) \<lparr>RoleName = aws_String roleName\<rparr> w of
           ((output, Some err), w1) \<Rightarrow> (Return (None, Some err), w1)
         | ((None, None), w1) \<Rightarrow> (Panic, w1)
         | ((Some output, None), w1) \<Rightarrow>
             (case Role output of
                None \<Rightarrow> (Panic, w1)
              | Some role \<Rightarrow>
                  (case AssumeRole (stsClient service)
                          \<lparr>AssumeRoleInput.RoleArn = Arn role,
                           AssumeRoleInput.DurationSeconds = aws_Int64 temporaryCredentialsDuration,
                           RoleSessionName = aws_String (''ecs-local-'' @ roleName)\<rparr> w1 of
                     ((creds, Some err), w2) \<Rightarrow> (Return (None, Some err), w2)
                   | ((creds, None), w2) \<Rightarrow>
                       (case buildResponse creds (aws_StringValue (Arn role)) of
                          Panic \<Rightarrow> (Panic, w2)
                        | Return response \<Rightarrow> (Return (Some response, None), w2))))))"

text \<open>
  A handler gives the response it hands to \<open>writeJSONResponse\<close>, if it does, and the
  error it returns.
\<close>

definition GetRoleHandler ::
  "'w CredentialService \<Rightarrow> string \<Rightarrow> 'w \<Rightarrow>
     (credentialResponse option \<times> error option) outcome \<times> 'w" where
  "GetRoleHandler service urlPath w =
     (case getRoleCredentials service urlPath w of
        (Panic, w') \<Rightarrow> (Panic, w')
      | (Return (response, Some err), w') \<Rightarrow> (Return (None, Some err), w')
      | (Return (response, None), w') \<Rightarrow> (Return (response, None), w'))"

definition GetTemporaryCredentialHandler ::
  "'w CredentialService \<Rightarrow> 'w \<Rightarrow>
     (credentialResponse option \<times> error option) outcome \<times> 'w" where
  "GetTemporaryCredentialHandler service w =
     (case GetSessionToken (stsClient service)
             \<lparr>DurationSeconds = aws_Int64 temporaryCredentialsDuration\<rparr> w of
        ((creds, Some err), w1) \<Rightarrow> (Return (None, Some err), w1)
      | ((creds, None), w1) \<Rightarrow>
          (case buildResponse creds [] of
             Panic \<Rightarrow> (Panic, w1)
           | Return response \<Rightarrow> (Return (Some response, None), w1)))"

section \<open>Startup\<close>

text \<open>The environment of the process; \<open>os.Getenv\<close> gives the empty string for an unset variable.\<close>

type_synonym environ = "string \<rightharpoonup> string"

definition os_Getenv :: "environ \<Rightarrow> string \<Rightarrow> string" where
  "os_Getenv env key = (case env key of None \<Rightarrow> [] | Some v \<Rightarrow> v)"

text \<open>The port chosen by \<open>main\<close>, and the address it listens on.\<close>

definition listenPort :: "environ \<Rightarrow> string" where
  "listenPort env =
     (let port = ''80'' in
      if os_Getenv env ''PORT'' \<noteq> [] then os_Getenv env ''PORT'' else port)"

datatype startup = Fatal string | ListenAndServe string

text \<open>
  \<open>main\<close>, given the environment and the error of \<open>NewCredentialService\<close> (nil when the
  session was created): a fatal exit, or the call of \<open>http.ListenAndServe\<close> on an
  address. What follows the return of that call (the fatal exit on its error, as for a
  port that cannot be bound) is not part of the value.
\<close>

definition main :: "environ \<Rightarrow> error option \<Rightarrow> startup" where
  "main env sessionErr =
     (case sessionErr of
        Some err \<Rightarrow> Fatal ''Failed to create Credentials Server''
      | None \<Rightarrow> ListenAndServe ('':'' @ listenPort env))"

section \<open>Observing the calls to the provider\<close>

datatype call =
    CallGetRole GetRoleInput
  | CallAssumeRole AssumeRoleInput
  | CallGetSessionToken GetSessionTokenInput

text \<open>
  A service whose clients record every request they receive, in order, before they answer
  as the clients of the given service do.
\<close>

definition recorded :: "'w CredentialService \<Rightarrow> ('w \<times> call list) CredentialService" where
  "recorded service =
     \<lparr>iamClient =
        \<lparr>GetRole = (\<lambda>input (w, log).
           (case GetRole (iamClient service) input w of
              (r, w') \<Rightarrow> (r, (w', log @ [CallGetRole input]))))\<rparr>,
      stsClient =
        \<lparr>AssumeRole = (\<lambda>input (w, log).
           (case AssumeRole (stsClient service) input w of
              (r, w') \<Rightarrow> (r, (w', log @ [CallAssumeRole input])))),
         GetSessionToken = (\<lambda>input (w, log).
           (case GetSessionToken (stsClient service) input w of
              (r, w') \<Rightarrow> (r, (w', log @ [CallGetSessionToken input]))))\<rparr>\<rparr>"

text \<open>
  A provider for concrete runs: every role but \<open>missing-role\<close> exists in the account
  111111111111; a role assumption expires at 2024-01-01T01:00:00Z and a session token at
  2024-01-01T02:00:00Z (1704070800 and 1704074400 seconds after the epoch, in UTC).
\<close>

definition exampleCredentials :: "int \<Rightarrow> sts_Output" where
  "exampleCredentials expiry =
     \<lparr>Credentials = Some
        \<lparr>sts_Credentials.AccessKeyId = Some ''AKIA...'',
         sts_Credentials.SecretAccessKey = Some ''secret'',
         SessionToken = Some ''token123'',
         sts_Credentials.Expiration = Some \<lparr>unixSec = expiry, zoneOffset = 0\<rparr>\<rparr>\<rparr>"

definition exampleService :: "unit CredentialService" where
  "exampleService =
     \<lparr>iamClient =
        \<lparr>GetRole = (\<lambda>input w.
           (case RoleName input of
              None \<Rightarrow> ((None, Some (ProviderError ''ValidationError'')), w)
            | Some name \<Rightarrow>
                if name = ''missing-role''
                then ((None, Some (ProviderError ''NoSuchEntity'')), w)
                else ((Some \<lparr>Role = Some \<lparr>Arn = Some (''arn:aws:iam::111111111111:role/'' @ name)\<rparr>\<rparr>,
                       None), w)))\<rparr>,
      stsClient =
        \<lparr>AssumeRole = (\<lambda>input w. ((Some (exampleCredentials 1704070800), None), w)),
         GetSessionToken = (\<lambda>input w. ((Some (exampleCredentials 1704074400), None), w))\<rparr>\<rparr>"

text \<open>A provider whose roles carry no ARN (a nil pointer); it issues credentials as above.\<close>

definition nilArnService :: "unit CredentialService" where
  "nilArnService =
     \<lparr>iamClient =
        \<lparr>GetRole = (\<lambda>input w. ((Some \<lparr>Role = Some \<lparr>Arn = None\<rparr>\<rparr>, None), w))\<rparr>,
      stsClient = stsClient exampleService\<rparr>"

section \<open>The pattern and the formatter on concrete inputs\<close>

lemma find_app_role:
  "regExpr_FindStringSubmatch ''/role/app-role'' = [''/role/app-role'', ''app-role'']"
  by code_simp

lemma find_missing_role:
  "regExpr_FindStringSubmatch ''/role/missing-role'' = [''/role/missing-role'', ''missing-role'']"
  by code_simp

lemma find_bad_name:
  "regExpr_FindStringSubmatch ''/role/bad name'' = [''/role/bad'', ''bad'']"
  by code_simp

lemma find_role_slash: "regExpr_FindStringSubmatch ''/role/'' = []"
  by code_simp

lemma find_rolename: "regExpr_FindStringSubmatch ''/rolename'' = []"
  by code_simp

lemma format_expiry_0100:
  "Format_RFC3339 \<lparr>unixSec = 1704070800, zoneOffset = 0\<rparr> = ''2024-01-01T01:00:00Z''"
  by code_simp

lemma format_expiry_0200:
  "Format_RFC3339 \<lparr>unixSec = 1704074400, zoneOffset = 0\<rparr> = ''2024-01-01T02:00:00Z''"
  by code_simp

section \<open>The clients of a recorded service\<close>

lemma recorded_GetRole:
  "GetRole (iamClient (recorded service)) input (w, log) =
     (case GetRole (iamClient service) input w of
        (r, w') \<Rightarrow> (r, (w', log @ [CallGetRole input])))"
  by (simp add: recorded_def)

lemma recorded_AssumeRole:
  "AssumeRole (stsClient (recorded service)) input (w, log) =
     (case AssumeRole (stsClient service) input w of
        (r, w') \<Rightarrow> (r, (w', log @ [CallAssumeRole input])))"
  by (simp add: recorded_def)

lemma recorded_GetSessionToken:
  "GetSessionToken (stsClient (recorded service)) input (w, log) =
     (case GetSessionToken (stsClient service) input w of
        (r, w') \<Rightarrow> (r, (w', log @ [CallGetSessionToken input])))"
  by (simp add: recorded_def)

section \<open>Where the pattern matches\<close>

lemma matchLiteral_iff: "matchLiteral l s = Some r \<longleftrightarrow> s = l @ r"
proof (induction l s rule: matchLiteral.induct)
  case (1 s)
  show ?case by auto
next
  case (2 c cs)
  show ?case by simp
next
  case (3 c cs d ds)
  then show ?case by auto
qed

lemma matchHere_None_iff:
  "matchHere s = None \<longleftrightarrow> \<not> (\<exists>c rest. s = ''/role/'' @ c # rest \<and> roleChar c)"
proof (cases "matchLiteral ''/role/'' s")
  case None
  then have "\<And>r. s \<noteq> ''/role/'' @ r"
    using matchLiteral_iff [of "''/role/''" s] by auto
  with None show ?thesis by (auto simp: matchHere_def)
next
  case (Some r)
  then have s: "s = ''/role/'' @ r" by (simp only: matchLiteral_iff)
  have "takeWhile roleChar r = [] \<longleftrightarrow> \<not> (\<exists>c rest. r = c # rest \<and> roleChar c)"
    by (cases r) auto
  with Some s show ?thesis by (auto simp: matchHere_def Let_def)
qed

lemma matchHere_length: "matchHere s = Some m \<Longrightarrow> length m = 2"
  by (auto simp: matchHere_def Let_def split: option.splits if_splits)

lemma find_length: "length (regExpr_FindStringSubmatch s) = 0 \<or> length (regExpr_FindStringSubmatch s) = 2"
proof (induction s)
  case Nil
  show ?case
    by (subst (1 2) regExpr_FindStringSubmatch.simps)
      (auto split: option.splits dest: matchHere_length)
next
  case (Cons a s)
  then show ?case
    by (subst (1 2) regExpr_FindStringSubmatch.simps)
      (auto split: option.splits dest: matchHere_length)
qed

lemma hasRoleName_Nil: "\<not> hasRoleName []"
  by (simp add: hasRoleName_def)

lemma hasRoleName_Cons:
  "hasRoleName (x # xs) \<longleftrightarrow> matchHere (x # xs) \<noteq> None \<or> hasRoleName xs"
proof
  assume "hasRoleName (x # xs)"
  then obtain pre c rest where p: "x # xs = pre @ ''/role/'' @ c # rest" and c: "roleChar c"
    unfolding hasRoleName_def by blast
  show "matchHere (x # xs) \<noteq> None \<or> hasRoleName xs"
  proof (cases pre)
    case Nil
    with p c have "\<exists>c rest. x # xs = ''/role/'' @ c # rest \<and> roleChar c" by auto
    then show ?thesis by (simp only: matchHere_None_iff) simp
  next
    case (Cons y ys)
    with p have "xs = ys @ ''/role/'' @ c # rest" by simp
    with c show ?thesis unfolding hasRoleName_def by blast
  qed
next
  assume "matchHere (x # xs) \<noteq> None \<or> hasRoleName xs"
  then show "hasRoleName (x # xs)"
  proof
    assume "matchHere (x # xs) \<noteq> None"
    then obtain c rest where "x # xs = ''/role/'' @ c # rest" "roleChar c"
      by (auto simp only: matchHere_None_iff)
    then have "x # xs = [] @ ''/role/'' @ c # rest \<and> roleChar c" by simp
    then show ?thesis unfolding hasRoleName_def by blast
  next
    assume "hasRoleName xs"
    then obtain pre c rest where "xs = pre @ ''/role/'' @ c # rest" "roleChar c"
      unfolding hasRoleName_def by blast
    then have "x # xs = (x # pre) @ ''/role/'' @ c # rest \<and> roleChar c" by simp
    then show ?thesis unfolding hasRoleName_def by blast
  qed
qed

lemma find_Nil_iff: "regExpr_FindStringSubmatch p = [] \<longleftrightarrow> \<not> hasRoleName p"
proof (induction p)
  case Nil
  have "matchHere [] = None" by (simp add: matchHere_def)
  then show ?case by (simp add: hasRoleName_Nil regExpr_FindStringSubmatch.simps [of "[]"])
next
  case (Cons x xs)
  show ?case
  proof (cases "matchHere (x # xs)")
    case None
    with Cons show ?thesis
      by (simp add: hasRoleName_Cons regExpr_FindStringSubmatch.simps [of "x # xs"])
  next
    case (Some m)
    then have "length m = 2" by (rule matchHere_length)
    then have "m \<noteq> []" by auto
    with Some show ?thesis
      by (simp add: hasRoleName_Cons regExpr_FindStringSubmatch.simps [of "x # xs"])
  qed
qed

lemma hasRoleName_alt:
  "hasRoleName p \<longleftrightarrow>
     (\<exists>pre name rest. p = pre @ ''/role/'' @ name @ rest \<and> name \<noteq> [] \<and> (\<forall>c \<in> set name. roleChar c))"
proof
  assume "hasRoleName p"
  then obtain pre c rest where "p = pre @ ''/role/'' @ c # rest" "roleChar c"
    unfolding hasRoleName_def by blast
  then have "p = pre @ ''/role/'' @ [c] @ rest \<and> [c] \<noteq> [] \<and> (\<forall>d \<in> set [c]. roleChar d)"
    by simp
  then show "\<exists>pre name rest. p = pre @ ''/role/'' @ name @ rest \<and> name \<noteq> [] \<and> (\<forall>c \<in> set name. roleChar c)"
    by blast
next
  assume "\<exists>pre name rest. p = pre @ ''/role/'' @ name @ rest \<and> name \<noteq> [] \<and> (\<forall>c \<in> set name. roleChar c)"
  then obtain pre name rest where p: "p = pre @ ''/role/'' @ name @ rest"
    and n: "name \<noteq> []" and a: "\<forall>c \<in> set name. roleChar c" by blast
  from n obtain c cs where "name = c # cs" by (cases name) auto
  with p a have "p = pre @ ''/role/'' @ c # (cs @ rest) \<and> roleChar c" by simp
  then show "hasRoleName p" unfolding hasRoleName_def by blast
qed

lemma find_short_iff: "length (regExpr_FindStringSubmatch p) < 2 \<longleftrightarrow> \<not> hasRoleName p"
  using find_length [of p] find_Nil_iff [of p] by auto

section \<open>The example provider\<close>

lemma exampleService_GetRole:
  "GetRole (iamClient exampleService) \<lparr>RoleName = Some name\<rparr> w =
     (if name = ''missing-role'' then ((None, Some (ProviderError ''NoSuchEntity'')), w)
      else ((Some \<lparr>Role = Some \<lparr>Arn = Some (''arn:aws:iam::111111111111:role/'' @ name)\<rparr>\<rparr>, None), w))"
  by (simp add: exampleService_def)

lemma exampleService_AssumeRole:
  "AssumeRole (stsClient exampleService) input w = ((Some (exampleCredentials 1704070800), None), w)"
  by (simp add: exampleService_def)

lemma exampleService_GetSessionToken:
  "GetSessionToken (stsClient exampleService) input w = ((Some (exampleCredentials 1704074400), None), w)"
  by (simp add: exampleService_def)

lemma example_role_run:
  "getRoleCredentials exampleService ''/role/app-role'' () =
     (Return (Some \<lparr>AccessKeyId = ''AKIA...'', SecretAccessKey = ''secret'',
                    RoleArn = ''arn:aws:iam::111111111111:role/app-role'',
                    Token = ''token123'', Expiration = ''2024-01-01T01:00:00Z''\<rparr>, None), ())"
  by (simp add: getRoleCredentials_def find_app_role Let_def aws_String_def
      exampleService_GetRole exampleService_AssumeRole exampleCredentials_def
      buildResponse_def format_expiry_0100)

lemma example_self_run:
  "GetTemporaryCredentialHandler exampleService () =
     (Return (Some \<lparr>AccessKeyId = ''AKIA...'', SecretAccessKey = ''secret'',
                    RoleArn = [], Token = ''token123'',
                    Expiration = ''2024-01-01T02:00:00Z''\<rparr>, None), ())"
  by (simp add: GetTemporaryCredentialHandler_def exampleService_GetSessionToken
      exampleCredentials_def buildResponse_def format_expiry_0200)

lemma example_recorded_role_run:
  "getRoleCredentials (recorded exampleService) ''/role/app-role'' ((), []) =
     (Return (Some \<lparr>AccessKeyId = ''AKIA...'', SecretAccessKey = ''secret'',
                    RoleArn = ''arn:aws:iam::111111111111:role/app-role'',
                    Token = ''token123'', Expiration = ''2024-01-01T01:00:00Z''\<rparr>, None),
      ((), [CallGetRole \<lparr>RoleName = Some ''app-role''\<rparr>,
            CallAssumeRole \<lparr>AssumeRoleInput.RoleArn = Some ''arn:aws:iam::111111111111:role/app-role'',
                            AssumeRoleInput.DurationSeconds = Some 3600,
                            RoleSessionName = Some ''ecs-local-app-role''\<rparr>]))"
  by (simp add: getRoleCredentials_def find_app_role recorded_GetRole recorded_AssumeRole
      exampleService_GetRole exampleService_AssumeRole aws_String_def aws_Int64_def
      temporaryCredentialsDuration_def buildResponse_def exampleCredentials_def format_expiry_0100
      Let_def)

section \<open>Malformed paths\<close>

text \<open>
  Claim C1, as the code has it. The pattern is searched for in the path, not matched
  against the whole of it. So: for every URL path that holds no occurrence of \<open>/role/\<close>
  followed by one or more characters of the class \<open>[\w+=,.@-]\<close> (the paths \<open>/role/\<close>
  and \<open>/rolename\<close> among them), \<open>getRoleCredentials\<close> returns no response and an
  \<open>HttpError\<close> of status 400 whose message is \<open>Invalid URL path\<close>, the path as it
  was given, and the expected format \<open>'/role/<IAM Role Name>'\<close>; the provider is left as it
  was.
\<close>

theorem getRoleCredentials_rejects_path_without_role_name:
  assumes "\<not> (\<exists>pre name rest. urlPath = pre @ ''/role/'' @ name @ rest \<and> name \<noteq> [] \<and>
                (\<forall>c \<in> set name. roleChar c))"
  shows "getRoleCredentials service urlPath w =
           (Return (None, Some (HttpError 400
              (Errorf (''Invalid URL path '' @ urlPath @ ''; expected '' @ [CHR 0x27] @
                       ''/role/<IAM Role Name>'' @ [CHR 0x27])))), w)"
proof -
  from assms have "\<not> hasRoleName urlPath" unfolding hasRoleName_alt .
  then have "length (regExpr_FindStringSubmatch urlPath) < 2" by (simp add: find_short_iff)
  then show ?thesis by (simp add: getRoleCredentials_def StatusBadRequest_def)
qed

theorem getRoleCredentials_rejects_path_without_role_name_witness:
  "\<not> (\<exists>pre name rest. ''/rolename'' = pre @ ''/role/'' @ name @ rest \<and> name \<noteq> [] \<and>
         (\<forall>c \<in> set name. roleChar c)) \<and>
   getRoleCredentials exampleService ''/rolename'' () =
     (Return (None, Some (HttpError 400
        (Errorf (''Invalid URL path /rolename; expected '' @ [CHR 0x27] @
                 ''/role/<IAM Role Name>'' @ [CHR 0x27])))), ()) \<and>
   \<not> (\<exists>pre name rest. ''/role/'' = pre @ ''/role/'' @ name @ rest \<and> name \<noteq> [] \<and>
         (\<forall>c \<in> set name. roleChar c)) \<and>
   getRoleCredentials exampleService ''/role/'' () =
     (Return (None, Some (HttpError 400
        (Errorf (''Invalid URL path /role/; expected '' @ [CHR 0x27] @
                 ''/role/<IAM Role Name>'' @ [CHR 0x27])))), ())"
proof -
  have a: "\<not> (\<exists>pre name rest. ''/rolename'' = pre @ ''/role/'' @ name @ rest \<and> name \<noteq> [] \<and>
         (\<forall>c \<in> set name. roleChar c))"
    using find_rolename find_Nil_iff [of "''/rolename''"] by (simp only: hasRoleName_alt) simp
  have b: "\<not> (\<exists>pre name rest. ''/role/'' = pre @ ''/role/'' @ name @ rest \<and> name \<noteq> [] \<and>
         (\<forall>c \<in> set name. roleChar c))"
    using find_role_slash find_Nil_iff [of "''/role/''"] by (simp only: hasRoleName_alt) simp
  show ?thesis
    using a b getRoleCredentials_rejects_path_without_role_name [OF a, of exampleService "()"]
      getRoleCredentials_rejects_path_without_role_name [OF b, of exampleService "()"]
    by simp
qed

text \<open>
  Claim C1 as stated fails on \<open>/role/bad name\<close>: the search finds \<open>/role/bad\<close>, the
  role \<open>bad\<close> is looked up and assumed, and its credentials are returned with no error.
\<close>

theorem getRoleCredentials_bad_name_counterexample:
  "getRoleCredentials (recorded exampleService) ''/role/bad name'' ((), []) =
     (Return (Some \<lparr>AccessKeyId = ''AKIA...'', SecretAccessKey = ''secret'',
                    RoleArn = ''arn:aws:iam::111111111111:role/bad'', Token = ''token123'',
                    Expiration = ''2024-01-01T01:00:00Z''\<rparr>, None),
      ((), [CallGetRole \<lparr>RoleName = Some ''bad''\<rparr>,
            CallAssumeRole \<lparr>AssumeRoleInput.RoleArn = Some ''arn:aws:iam::111111111111:role/bad'',
                            AssumeRoleInput.DurationSeconds = Some 3600,
                            RoleSessionName = Some ''ecs-local-bad''\<rparr>]))"
  by (simp add: getRoleCredentials_def find_bad_name recorded_GetRole recorded_AssumeRole
      exampleService_GetRole exampleService_AssumeRole aws_String_def aws_Int64_def
      temporaryCredentialsDuration_def buildResponse_def exampleCredentials_def format_expiry_0100
      Let_def)

text \<open>
  Claim C9. On every path on which the extraction of the role name fails (the search gives
  fewer than two parts), \<open>getRoleCredentials\<close> returns the 400 error and calls no
  operation of the provider, neither the role lookup nor an issuance of credentials: the
  record of calls and the state of the provider are as they were before.
\<close>

theorem malformed_path_makes_no_call:
  assumes "length (regExpr_FindStringSubmatch urlPath) < 2"
  shows "getRoleCredentials (recorded service) urlPath (w, log) =
           (Return (None, Some (HttpError 400
              (Errorf (''Invalid URL path '' @ urlPath @ ''; expected '' @ [CHR 0x27] @
                       ''/role/<IAM Role Name>'' @ [CHR 0x27])))), (w, log))"
  using assms by (simp add: getRoleCredentials_def StatusBadRequest_def)

theorem malformed_path_makes_no_call_witness:
  "length (regExpr_FindStringSubmatch ''/role/'') < 2 \<and>
   getRoleCredentials (recorded exampleService) ''/role/'' ((), []) =
     (Return (None, Some (HttpError 400
        (Errorf (''Invalid URL path /role/; expected '' @ [CHR 0x27] @
                 ''/role/<IAM Role Name>'' @ [CHR 0x27])))), ((), []))"
proof -
  have l: "length (regExpr_FindStringSubmatch ''/role/'') < 2"
    by (simp add: find_role_slash)
  show ?thesis using l malformed_path_makes_no_call [OF l, of exampleService "()" "[]"] by simp
qed

section \<open>Credentials of a role\<close>

text \<open>
  Claim C2. The role \<open>app-role\<close> is looked up with the ARN
  \<open>arn:aws:iam::111111111111:role/app-role\<close>, and assuming the role of that ARN gives the
  access key \<open>AKIA...\<close>, the secret \<open>secret\<close>, the session token \<open>token123\<close> and
  the expiry 2024-01-01T01:00:00Z (1704070800 seconds after the epoch, in UTC). Then
  \<open>getRoleCredentials\<close> on \<open>/role/app-role\<close> returns exactly the response with these
  values, the ARN as \<open>RoleArn\<close> and the expiry as \<open>2024-01-01T01:00:00Z\<close>, and no error.
\<close>

theorem app_role_scenario:
  assumes lookup: "\<forall>w. fst (GetRole (iamClient service) \<lparr>RoleName = Some ''app-role''\<rparr> w) =
      (Some \<lparr>Role = Some \<lparr>Arn = Some ''arn:aws:iam::111111111111:role/app-role''\<rparr>\<rparr>, None)"
    and assumption: "\<forall>input w.
      AssumeRoleInput.RoleArn input = Some ''arn:aws:iam::111111111111:role/app-role'' \<longrightarrow>
      fst (AssumeRole (stsClient service) input w) =
        (Some \<lparr>Credentials = Some
           \<lparr>sts_Credentials.AccessKeyId = Some ''AKIA...'',
            sts_Credentials.SecretAccessKey = Some ''secret'',
            SessionToken = Some ''token123'',
            sts_Credentials.Expiration = Some \<lparr>unixSec = 1704070800, zoneOffset = 0\<rparr>\<rparr>\<rparr>, None)"
  shows "fst (getRoleCredentials service ''/role/app-role'' w) =
      Return (Some \<lparr>AccessKeyId = ''AKIA...'', SecretAccessKey = ''secret'',
                     RoleArn = ''arn:aws:iam::111111111111:role/app-role'',
                     Token = ''token123'', Expiration = ''2024-01-01T01:00:00Z''\<rparr>, None)"
proof -
  obtain w1 where g: "GetRole (iamClient service) \<lparr>RoleName = Some ''app-role''\<rparr> w =
      ((Some \<lparr>Role = Some \<lparr>Arn = Some ''arn:aws:iam::111111111111:role/app-role''\<rparr>\<rparr>, None), w1)"
    using lookup [rule_format, of w] by (cases "GetRole (iamClient service) \<lparr>RoleName = Some ''app-role''\<rparr> w") simp
  let ?input = "\<lparr>AssumeRoleInput.RoleArn = Some ''arn:aws:iam::111111111111:role/app-role'',
                  AssumeRoleInput.DurationSeconds = Some 3600,
                  RoleSessionName = Some ''ecs-local-app-role''\<rparr>"
  obtain w2 where a: "AssumeRole (stsClient service) ?input w1 =
        ((Some \<lparr>Credentials = Some
           \<lparr>sts_Credentials.AccessKeyId = Some ''AKIA...'',
            sts_Credentials.SecretAccessKey = Some ''secret'',
            SessionToken = Some ''token123'',
            sts_Credentials.Expiration = Some \<lparr>unixSec = 1704070800, zoneOffset = 0\<rparr>\<rparr>\<rparr>, None), w2)"
    using assumption [rule_format, of ?input w1]
    by (cases "AssumeRole (stsClient service) ?input w1") simp
  show ?thesis
    by (simp add: getRoleCredentials_def find_app_role Let_def aws_String_def aws_Int64_def
        temporaryCredentialsDuration_def g a buildResponse_def format_expiry_0100)
qed

theorem app_role_scenario_witness:
  "fst (getRoleCredentials exampleService ''/role/app-role'' ()) =
      Return (Some \<lparr>AccessKeyId = ''AKIA...'', SecretAccessKey = ''secret'',
                     RoleArn = ''arn:aws:iam::111111111111:role/app-role'',
                     Token = ''token123'', Expiration = ''2024-01-01T01:00:00Z''\<rparr>, None)"
  by (rule app_role_scenario)
    (simp_all add: exampleService_GetRole exampleService_AssumeRole exampleCredentials_def)

text \<open>
  Claim C3. On every path from which a role name is extracted, if the role lookup fails
  with an error \<open>e\<close>, \<open>getRoleCredentials\<close> returns that very error \<open>e\<close>, with no
  \<open>HttpError\<close> put around it, and no response; so it does on \<open>/role/missing-role\<close> when
  the lookup of \<open>missing-role\<close> fails.
\<close>

theorem lookup_error_propagates:
  assumes "2 \<le> length (regExpr_FindStringSubmatch urlPath)"
    and "GetRole (iamClient service) \<lparr>RoleName = Some (regExpr_FindStringSubmatch urlPath ! 1)\<rparr> w =
           ((output, Some e), w1)"
  shows "getRoleCredentials service urlPath w = (Return (None, Some e), w1)"
  using assms by (simp add: getRoleCredentials_def Let_def aws_String_def split: option.splits)

theorem lookup_error_propagates_witness:
  "2 \<le> length (regExpr_FindStringSubmatch ''/role/missing-role'') \<and>
   GetRole (iamClient exampleService)
     \<lparr>RoleName = Some (regExpr_FindStringSubmatch ''/role/missing-role'' ! 1)\<rparr> () =
       ((None, Some (ProviderError ''NoSuchEntity'')), ()) \<and>
   getRoleCredentials exampleService ''/role/missing-role'' () =
     (Return (None, Some (ProviderError ''NoSuchEntity'')), ())"
proof -
  have l: "2 \<le> length (regExpr_FindStringSubmatch ''/role/missing-role'')"
    by (simp add: find_missing_role)
  have g: "GetRole (iamClient exampleService)
     \<lparr>RoleName = Some (regExpr_FindStringSubmatch ''/role/missing-role'' ! 1)\<rparr> () =
       ((None, Some (ProviderError ''NoSuchEntity'')), ())"
    by (simp add: find_missing_role exampleService_GetRole)
  show ?thesis using l g lookup_error_propagates [OF l g] by simp
qed

text \<open>
  Claim C4. For every role name extracted from the path and looked up with success, the
  provider receives, after the lookup, one request to assume the role: its duration is
  3600 seconds and its session name is \<open>ecs-local-\<close> followed by the extracted role name.
\<close>

theorem assume_role_request:
  assumes "2 \<le> length (regExpr_FindStringSubmatch urlPath)"
    and "roleName = regExpr_FindStringSubmatch urlPath ! 1"
    and "GetRole (iamClient service) \<lparr>RoleName = Some roleName\<rparr> w = ((Some output, None), w1)"
    and "Role output = Some role"
  shows "snd (snd (getRoleCredentials (recorded service) urlPath (w, []))) =
           [CallGetRole \<lparr>RoleName = Some roleName\<rparr>,
            CallAssumeRole \<lparr>AssumeRoleInput.RoleArn = Arn role,
                            AssumeRoleInput.DurationSeconds = Some 3600,
                            RoleSessionName = Some (''ecs-local-'' @ roleName)\<rparr>] \<and>
         sint (3600 :: int64) = 3600"
  using assms
  by (simp add: getRoleCredentials_def Let_def aws_String_def aws_Int64_def
      temporaryCredentialsDuration_def recorded_GetRole recorded_AssumeRole
      split: prod.splits option.splits outcome.splits)

theorem assume_role_request_witness:
  "2 \<le> length (regExpr_FindStringSubmatch ''/role/app-role'') \<and>
   snd (snd (getRoleCredentials (recorded exampleService) ''/role/app-role'' ((), []))) =
     [CallGetRole \<lparr>RoleName = Some ''app-role''\<rparr>,
      CallAssumeRole \<lparr>AssumeRoleInput.RoleArn = Some ''arn:aws:iam::111111111111:role/app-role'',
                      AssumeRoleInput.DurationSeconds = Some 3600,
                      RoleSessionName = Some ''ecs-local-app-role''\<rparr>]"
proof -
  have l: "2 \<le> length (regExpr_FindStringSubmatch ''/role/app-role'')"
    by (simp add: find_app_role)
  have n: "''app-role'' = regExpr_FindStringSubmatch ''/role/app-role'' ! 1"
    by (simp add: find_app_role)
  have g: "GetRole (iamClient exampleService) \<lparr>RoleName = Some ''app-role''\<rparr> () =
      ((Some \<lparr>Role = Some \<lparr>Arn = Some ''arn:aws:iam::111111111111:role/app-role''\<rparr>\<rparr>, None), ())"
    by (simp add: exampleService_GetRole)
  have r: "Role \<lparr>Role = Some \<lparr>Arn = Some ''arn:aws:iam::111111111111:role/app-role''\<rparr>\<rparr> =
      Some \<lparr>Arn = Some ''arn:aws:iam::111111111111:role/app-role''\<rparr>"
    by simp
  show ?thesis using l assume_role_request [OF l n g r] by simp
qed

text \<open>
  Claim C10. In every successful result of \<open>getRoleCredentials\<close> one ARN is shared by the
  lookup, the assumption and the response: the \<open>RoleArn\<close> of the request to assume the
  role is the ARN the lookup returned, and the \<open>RoleArn\<close> of the response is the string
  of that same ARN.
\<close>

theorem one_arn_throughout:
  assumes "getRoleCredentials (recorded service) urlPath (w, []) =
             (Return (Some response, None), (w', log))"
  shows "\<exists>roleName output role w1 input.
           log = [CallGetRole \<lparr>RoleName = Some roleName\<rparr>, CallAssumeRole input] \<and>
           GetRole (iamClient service) \<lparr>RoleName = Some roleName\<rparr> w = ((Some output, None), w1) \<and>
           Role output = Some role \<and>
           AssumeRoleInput.RoleArn input = Arn role \<and>
           RoleArn response = aws_StringValue (Arn role)"
  using assms
  by (auto simp: getRoleCredentials_def Let_def aws_String_def aws_Int64_def buildResponse_def
      recorded_GetRole recorded_AssumeRole
      split: if_splits prod.splits option.splits outcome.splits)

theorem one_arn_throughout_witness:
  "getRoleCredentials (recorded exampleService) ''/role/app-role'' ((), []) =
     (Return (Some \<lparr>AccessKeyId = ''AKIA...'', SecretAccessKey = ''secret'',
                    RoleArn = ''arn:aws:iam::111111111111:role/app-role'',
                    Token = ''token123'', Expiration = ''2024-01-01T01:00:00Z''\<rparr>, None),
      ((), [CallGetRole \<lparr>RoleName = Some ''app-role''\<rparr>,
            CallAssumeRole \<lparr>AssumeRoleInput.RoleArn = Some ''arn:aws:iam::111111111111:role/app-role'',
                            AssumeRoleInput.DurationSeconds = Some 3600,
                            RoleSessionName = Some ''ecs-local-app-role''\<rparr>])) \<and>
   (\<exists>output role w1.
      GetRole (iamClient exampleService) \<lparr>RoleName = Some ''app-role''\<rparr> () =
        ((Some output, None), w1) \<and>
      Role output = Some role \<and>
      Some ''arn:aws:iam::111111111111:role/app-role'' = Arn role \<and>
      ''arn:aws:iam::111111111111:role/app-role'' = aws_StringValue (Arn role))"
  using example_recorded_role_run one_arn_throughout [OF example_recorded_role_run]
  by auto

section \<open>Credentials of the local identity\<close>

text \<open>
  Claim C7. \<open>GetTemporaryCredentialHandler\<close> asks the provider for a session token with
  a duration of 3600 seconds and for nothing else (no role is looked up); when the
  provider issues credentials that expire at 2024-01-01T02:00:00Z (1704074400 seconds after
  the epoch, in UTC), the response has the empty \<open>RoleArn\<close> and the \<open>Expiration\<close>
  \<open>2024-01-01T02:00:00Z\<close>.
\<close>

theorem self_session_credentials:
  "snd (snd (GetTemporaryCredentialHandler (recorded service) (w, []))) =
     [CallGetSessionToken \<lparr>DurationSeconds = Some 3600\<rparr>] \<and>
   (GetSessionToken (stsClient service) \<lparr>DurationSeconds = Some 3600\<rparr> w =
      ((Some creds, None), w1) \<and>
    Credentials creds = Some c \<and>
    sts_Credentials.Expiration c = Some \<lparr>unixSec = 1704074400, zoneOffset = 0\<rparr> \<longrightarrow>
    GetTemporaryCredentialHandler service w =
      (Return (Some \<lparr>AccessKeyId = aws_StringValue (sts_Credentials.AccessKeyId c),
                     SecretAccessKey = aws_StringValue (sts_Credentials.SecretAccessKey c),
                     RoleArn = [],
                     Token = aws_StringValue (SessionToken c),
                     Expiration = ''2024-01-01T02:00:00Z''\<rparr>, None), w1))"
proof (intro conjI impI)
  show "snd (snd (GetTemporaryCredentialHandler (recorded service) (w, []))) =
     [CallGetSessionToken \<lparr>DurationSeconds = Some 3600\<rparr>]"
    by (simp add: GetTemporaryCredentialHandler_def aws_Int64_def temporaryCredentialsDuration_def
        recorded_GetSessionToken split: prod.splits option.splits outcome.splits)
next
  assume "GetSessionToken (stsClient service) \<lparr>DurationSeconds = Some 3600\<rparr> w =
      ((Some creds, None), w1) \<and>
    Credentials creds = Some c \<and>
    sts_Credentials.Expiration c = Some \<lparr>unixSec = 1704074400, zoneOffset = 0\<rparr>"
  then show "GetTemporaryCredentialHandler service w =
      (Return (Some \<lparr>AccessKeyId = aws_StringValue (sts_Credentials.AccessKeyId c),
                     SecretAccessKey = aws_StringValue (sts_Credentials.SecretAccessKey c),
                     RoleArn = [],
                     Token = aws_StringValue (SessionToken c),
                     Expiration = ''2024-01-01T02:00:00Z''\<rparr>, None), w1)"
    by (simp add: GetTemporaryCredentialHandler_def aws_Int64_def temporaryCredentialsDuration_def
        buildResponse_def format_expiry_0200)
qed

theorem self_session_credentials_witness:
  "snd (snd (GetTemporaryCredentialHandler (recorded exampleService) ((), []))) =
     [CallGetSessionToken \<lparr>DurationSeconds = Some 3600\<rparr>] \<and>
   GetSessionToken (stsClient exampleService) \<lparr>DurationSeconds = Some 3600\<rparr> () =
     ((Some (exampleCredentials 1704074400), None), ()) \<and>
   GetTemporaryCredentialHandler exampleService () =
     (Return (Some \<lparr>AccessKeyId = ''AKIA...'', SecretAccessKey = ''secret'',
                    RoleArn = [], Token = ''token123'',
                    Expiration = ''2024-01-01T02:00:00Z''\<rparr>, None), ())"
  using self_session_credentials [of exampleService "()" "exampleCredentials 1704074400" "()"
      "\<lparr>sts_Credentials.AccessKeyId = Some ''AKIA...'',
        sts_Credentials.SecretAccessKey = Some ''secret'',
        SessionToken = Some ''token123'',
        sts_Credentials.Expiration = Some \<lparr>unixSec = 1704074400, zoneOffset = 0\<rparr>\<rparr>"]
  by (simp add: exampleService_GetSessionToken exampleCredentials_def)

section \<open>Both paths\<close>

text \<open>
  Claim C5, as the code has it. In a response returned without error,
  \<open>getRoleCredentials\<close> sets \<open>RoleArn\<close> to the ARN of the role it looked up, the empty
  string standing for a nil ARN: on this path \<open>RoleArn\<close> is filled exactly when the
  provider gave the role a non-empty ARN. \<open>GetTemporaryCredentialHandler\<close> always gives
  the empty string.
\<close>

theorem role_arn_from_lookup:
  "(getRoleCredentials service urlPath w = (Return (Some response, None), w') \<longrightarrow>
      (\<exists>output role w1.
         GetRole (iamClient service) \<lparr>RoleName = Some (regExpr_FindStringSubmatch urlPath ! 1)\<rparr> w =
           ((Some output, None), w1) \<and>
         Role output = Some role \<and>
         RoleArn response = aws_StringValue (Arn role) \<and>
         (RoleArn response \<noteq> [] \<longleftrightarrow> (\<exists>arn. Arn role = Some arn \<and> arn \<noteq> [])))) \<and>
   (GetTemporaryCredentialHandler service w = (Return (Some response, None), w') \<longrightarrow>
      RoleArn response = [])"
proof (intro conjI impI)
  assume "getRoleCredentials service urlPath w = (Return (Some response, None), w')"
  then obtain out role w1 where
    g: "GetRole (iamClient service) \<lparr>RoleName = Some (regExpr_FindStringSubmatch urlPath ! 1)\<rparr> w =
           ((Some out, None), w1)"
    and r: "Role out = Some role"
    and a: "RoleArn response = aws_StringValue (Arn role)"
    by (auto simp: getRoleCredentials_def Let_def aws_String_def buildResponse_def
        split: if_splits prod.splits option.splits outcome.splits)
  have "RoleArn response \<noteq> [] \<longleftrightarrow> (\<exists>arn. Arn role = Some arn \<and> arn \<noteq> [])"
    using a by (cases "Arn role") simp_all
  with g r a show "\<exists>output role w1.
         GetRole (iamClient service) \<lparr>RoleName = Some (regExpr_FindStringSubmatch urlPath ! 1)\<rparr> w =
           ((Some output, None), w1) \<and>
         Role output = Some role \<and>
         RoleArn response = aws_StringValue (Arn role) \<and>
         (RoleArn response \<noteq> [] \<longleftrightarrow> (\<exists>arn. Arn role = Some arn \<and> arn \<noteq> []))"
    by blast
next
  assume "GetTemporaryCredentialHandler service w = (Return (Some response, None), w')"
  then show "RoleArn response = []"
    by (auto simp: GetTemporaryCredentialHandler_def buildResponse_def
        split: prod.splits option.splits outcome.splits)
qed

theorem role_arn_from_lookup_witness:
  "getRoleCredentials exampleService ''/role/app-role'' () =
     (Return (Some \<lparr>AccessKeyId = ''AKIA...'', SecretAccessKey = ''secret'',
                    RoleArn = ''arn:aws:iam::111111111111:role/app-role'',
                    Token = ''token123'', Expiration = ''2024-01-01T01:00:00Z''\<rparr>, None), ()) \<and>
   (\<exists>output role w1.
      GetRole (iamClient exampleService)
        \<lparr>RoleName = Some (regExpr_FindStringSubmatch ''/role/app-role'' ! 1)\<rparr> () =
          ((Some output, None), w1) \<and>
      Role output = Some role \<and>
      ''arn:aws:iam::111111111111:role/app-role'' = aws_StringValue (Arn role) \<and>
      (\<exists>arn. Arn role = Some arn \<and> arn \<noteq> [])) \<and>
   GetTemporaryCredentialHandler exampleService () =
     (Return (Some \<lparr>AccessKeyId = ''AKIA...'', SecretAccessKey = ''secret'',
                    RoleArn = [], Token = ''token123'',
                    Expiration = ''2024-01-01T02:00:00Z''\<rparr>, None), ()) \<and>
   RoleArn \<lparr>AccessKeyId = ''AKIA...'', SecretAccessKey = ''secret'',
             RoleArn = [], Token = ''token123'',
             Expiration = ''2024-01-01T02:00:00Z''\<rparr> = []"
  using example_role_run example_self_run
    role_arn_from_lookup [of exampleService "''/role/app-role''" "()"
      "\<lparr>AccessKeyId = ''AKIA...'', SecretAccessKey = ''secret'',
        RoleArn = ''arn:aws:iam::111111111111:role/app-role'',
        Token = ''token123'', Expiration = ''2024-01-01T01:00:00Z''\<rparr>" "()"]
    role_arn_from_lookup [of exampleService "''/role/app-role''" "()"
      "\<lparr>AccessKeyId = ''AKIA...'', SecretAccessKey = ''secret'',
        RoleArn = [], Token = ''token123'', Expiration = ''2024-01-01T02:00:00Z''\<rparr>" "()"]
  by simp

text \<open>
  Claim C5 as stated fails for a provider whose role has no ARN: the credentials are those
  of the role \<open>app-role\<close>, looked up and assumed with no error, and \<open>RoleArn\<close> is empty.
\<close>

theorem role_derived_empty_RoleArn_counterexample:
  "getRoleCredentials (recorded nilArnService) ''/role/app-role'' ((), []) =
     (Return (Some \<lparr>AccessKeyId = ''AKIA...'', SecretAccessKey = ''secret'',
                    RoleArn = [], Token = ''token123'',
                    Expiration = ''2024-01-01T01:00:00Z''\<rparr>, None),
      ((), [CallGetRole \<lparr>RoleName = Some ''app-role''\<rparr>,
            CallAssumeRole \<lparr>AssumeRoleInput.RoleArn = None,
                            AssumeRoleInput.DurationSeconds = Some 3600,
                            RoleSessionName = Some ''ecs-local-app-role''\<rparr>]))"
  by (simp add: getRoleCredentials_def find_app_role recorded_GetRole recorded_AssumeRole
      nilArnService_def exampleService_AssumeRole aws_String_def aws_Int64_def
      temporaryCredentialsDuration_def buildResponse_def exampleCredentials_def format_expiry_0100
      Let_def)

text \<open>
  Claim C6. In every successful response of either path, \<open>Expiration\<close> is the RFC3339
  rendering of the expiry that the provider returned with the credentials of that very
  request (the role assumption, or the session token); no other instant enters it.
\<close>

theorem expiration_is_provider_expiry:
  "(getRoleCredentials service urlPath w = (Return (Some response, None), w') \<longrightarrow>
      (\<exists>output role w1 creds c t.
         GetRole (iamClient service) \<lparr>RoleName = Some (regExpr_FindStringSubmatch urlPath ! 1)\<rparr> w =
           ((Some output, None), w1) \<and>
         Role output = Some role \<and>
         AssumeRole (stsClient service)
           \<lparr>AssumeRoleInput.RoleArn = Arn role,
            AssumeRoleInput.DurationSeconds = Some 3600,
            RoleSessionName = Some (''ecs-local-'' @ regExpr_FindStringSubmatch urlPath ! 1)\<rparr> w1 =
           ((Some creds, None), w') \<and>
         Credentials creds = Some c \<and>
         sts_Credentials.Expiration c = Some t \<and>
         Expiration response = Format_RFC3339 t)) \<and>
   (GetTemporaryCredentialHandler service w = (Return (Some response, None), w') \<longrightarrow>
      (\<exists>creds c t.
         GetSessionToken (stsClient service) \<lparr>DurationSeconds = Some 3600\<rparr> w =
           ((Some creds, None), w') \<and>
         Credentials creds = Some c \<and>
         sts_Credentials.Expiration c = Some t \<and>
         Expiration response = Format_RFC3339 t))"
proof (intro conjI impI)
  assume "getRoleCredentials service urlPath w = (Return (Some response, None), w')"
  then show "\<exists>output role w1 creds c t.
         GetRole (iamClient service) \<lparr>RoleName = Some (regExpr_FindStringSubmatch urlPath ! 1)\<rparr> w =
           ((Some output, None), w1) \<and>
         Role output = Some role \<and>
         AssumeRole (stsClient service)
           \<lparr>AssumeRoleInput.RoleArn = Arn role,
            AssumeRoleInput.DurationSeconds = Some 3600,
            RoleSessionName = Some (''ecs-local-'' @ regExpr_FindStringSubmatch urlPath ! 1)\<rparr> w1 =
           ((Some creds, None), w') \<and>
         Credentials creds = Some c \<and>
         sts_Credentials.Expiration c = Some t \<and>
         Expiration response = Format_RFC3339 t"
    by (auto simp: getRoleCredentials_def Let_def aws_String_def aws_Int64_def
        temporaryCredentialsDuration_def buildResponse_def
        split: if_splits prod.splits option.splits outcome.splits)
next
  assume "GetTemporaryCredentialHandler service w = (Return (Some response, None), w')"
  then show "\<exists>creds c t.
         GetSessionToken (stsClient service) \<lparr>DurationSeconds = Some 3600\<rparr> w =
           ((Some creds, None), w') \<and>
         Credentials creds = Some c \<and>
         sts_Credentials.Expiration c = Some t \<and>
         Expiration response = Format_RFC3339 t"
    by (auto simp: GetTemporaryCredentialHandler_def aws_Int64_def
        temporaryCredentialsDuration_def buildResponse_def
        split: prod.splits option.splits outcome.splits)
qed

theorem expiration_is_provider_expiry_witness:
  "getRoleCredentials exampleService ''/role/app-role'' () =
     (Return (Some \<lparr>AccessKeyId = ''AKIA...'', SecretAccessKey = ''secret'',
                    RoleArn = ''arn:aws:iam::111111111111:role/app-role'',
                    Token = ''token123'', Expiration = ''2024-01-01T01:00:00Z''\<rparr>, None), ()) \<and>
   GetTemporaryCredentialHandler exampleService () =
     (Return (Some \<lparr>AccessKeyId = ''AKIA...'', SecretAccessKey = ''secret'',
                    RoleArn = [], Token = ''token123'',
                    Expiration = ''2024-01-01T02:00:00Z''\<rparr>, None), ()) \<and>
   (\<exists>creds c t.
      AssumeRole (stsClient exampleService)
        \<lparr>AssumeRoleInput.RoleArn = Some ''arn:aws:iam::111111111111:role/app-role'',
         AssumeRoleInput.DurationSeconds = Some 3600,
         RoleSessionName = Some ''ecs-local-app-role''\<rparr> () = ((Some creds, None), ()) \<and>
      Credentials creds = Some c \<and> sts_Credentials.Expiration c = Some t \<and>
      ''2024-01-01T01:00:00Z'' = Format_RFC3339 t) \<and>
   (\<exists>creds c t.
      GetSessionToken (stsClient exampleService) \<lparr>DurationSeconds = Some 3600\<rparr> () =
        ((Some creds, None), ()) \<and>
      Credentials creds = Some c \<and> sts_Credentials.Expiration c = Some t \<and>
      ''2024-01-01T02:00:00Z'' = Format_RFC3339 t)"
  using example_role_run example_self_run
    expiration_is_provider_expiry [of exampleService "''/role/app-role''" "()"
      "\<lparr>AccessKeyId = ''AKIA...'', SecretAccessKey = ''secret'',
        RoleArn = ''arn:aws:iam::111111111111:role/app-role'',
        Token = ''token123'', Expiration = ''2024-01-01T01:00:00Z''\<rparr>" "()"]
    expiration_is_provider_expiry [of exampleService "''/role/app-role''" "()"
      "\<lparr>AccessKeyId = ''AKIA...'', SecretAccessKey = ''secret'',
        RoleArn = [], Token = ''token123'', Expiration = ''2024-01-01T02:00:00Z''\<rparr>" "()"]
  by (simp add: find_app_role exampleService_GetRole exampleService_AssumeRole
      exampleService_GetSessionToken)

section \<open>The listen port\<close>

text \<open>
  Claim C8. At startup the listen port is the value of the environment variable \<open>PORT\<close>
  when it is set to a non-empty string, and \<open>80\<close> otherwise; the server listens on the
  address made of a colon and that port.
\<close>

theorem listen_port_from_environment:
  "(\<forall>v. env ''PORT'' = Some v \<and> v \<noteq> [] \<longrightarrow> listenPort env = v) \<and>
   (env ''PORT'' = None \<or> env ''PORT'' = Some [] \<longrightarrow> listenPort env = ''80'') \<and>
   main env None = ListenAndServe ('':'' @ listenPort env)"
  by (auto simp: listenPort_def os_Getenv_def main_def)

theorem listen_port_from_environment_witness:
  "listenPort [''PORT'' \<mapsto> ''8080''] = ''8080'' \<and>
   listenPort Map.empty = ''80'' \<and>
   listenPort [''PORT'' \<mapsto> []] = ''80'' \<and>
   main [''PORT'' \<mapsto> ''8080''] None = ListenAndServe '':8080''"
  using listen_port_from_environment [of "[''PORT'' \<mapsto> ''8080'']"]
    listen_port_from_environment [of Map.empty]
    listen_port_from_environment [of "[''PORT'' \<mapsto> []]"]
  by simp

end
